theory Spec2Isabelle
  imports Complex_Main
begin

section \<open>Values of the Python runtime\<close>

text \<open>
  The program (update.py) reads three HTTP APIs and handles their answers as the trees that
  \<^verbatim>\<open>response.json()\<close> returns: None, bool, int, float, str, list and dict. A dict is kept
  as the list of its items; a lookup takes the first item with the key. A str is a list of
  characters with code points below 256. A float carries its numeric value only.
\<close>

datatype json =
    JNull
  | JBool bool
  | JInt int
  | JFloat rat
  | JStr string
  | JArr "json list"
  | JObj "(string \<times> json) list"

text \<open>
  The exceptions the program can meet. \<open>RequestException\<close> stands for the whole class
  \<^verbatim>\<open>requests.exceptions.RequestException\<close> (time-outs, connection errors, HTTPError), the only
  class the fetchers catch by name.
\<close>

datatype pyerr =
    FileNotFoundError
  | ValueError
  | RequestException
  | AttributeError
  | TypeError
  | KeyError
  | IndexError
  | OverflowError
  | OSError

definition andthen :: "pyerr + 'a \<Rightarrow> ('a \<Rightarrow> pyerr + 'b) \<Rightarrow> pyerr + 'b" where
  "andthen m f = (case m of Inl e \<Rightarrow> Inl e | Inr x \<Rightarrow> f x)"

text \<open>Truth value of an object, as \<^verbatim>\<open>if x:\<close> and \<^verbatim>\<open>not x\<close> test it.\<close>

fun truthy :: "json \<Rightarrow> bool" where
  "truthy JNull = False"
| "truthy (JBool b) = b"
| "truthy (JInt i) = (i \<noteq> 0)"
| "truthy (JFloat q) = (q \<noteq> 0)"
| "truthy (JStr s) = (s \<noteq> [])"
| "truthy (JArr xs) = (xs \<noteq> [])"
| "truthy (JObj kv) = (kv \<noteq> [])"

text \<open>\<^verbatim>\<open>x.get(k, d)\<close>: only a dict has the method.\<close>

definition dict_get :: "json \<Rightarrow> string \<Rightarrow> json \<Rightarrow> pyerr + json" where
  "dict_get x k d =
     (case x of
        JObj kv \<Rightarrow> Inr (case map_of kv k of Some v \<Rightarrow> v | None \<Rightarrow> d)
      | _ \<Rightarrow> Inl AttributeError)"

text \<open>\<^verbatim>\<open>x[k]\<close> with a string key.\<close>

definition subscript :: "json \<Rightarrow> string \<Rightarrow> pyerr + json" where
  "subscript x k =
     (case x of
        JObj kv \<Rightarrow> (case map_of kv k of Some v \<Rightarrow> Inr v | None \<Rightarrow> Inl KeyError)
      | _ \<Rightarrow> Inl TypeError)"

text \<open>\<^verbatim>\<open>x[0]\<close>. The keys of a parsed JSON object are strings, so a dict has no key 0.\<close>

definition subscript0 :: "json \<Rightarrow> pyerr + json" where
  "subscript0 x =
     (case x of
        JArr [] \<Rightarrow> Inl IndexError
      | JArr (v # _) \<Rightarrow> Inr v
      | JStr [] \<Rightarrow> Inl IndexError
      | JStr (c # _) \<Rightarrow> Inr (JStr [c])
      | JObj _ \<Rightarrow> Inl KeyError
      | _ \<Rightarrow> Inl TypeError)"

text \<open>\<^verbatim>\<open>s in t\<close> for strings: \<open>s\<close> occurs in \<open>t\<close> as a contiguous run.\<close>

fun starts_with :: "string \<Rightarrow> string \<Rightarrow> bool" where
  "starts_with [] t = True"
| "starts_with (c # s) [] = False"
| "starts_with (c # s) (d # t) = (c = d \<and> starts_with s t)"

fun occurs_in :: "string \<Rightarrow> string \<Rightarrow> bool" where
  "occurs_in s [] = (s = [])"
| "occurs_in s (d # t) = (starts_with s (d # t) \<or> occurs_in s t)"

text \<open>\<^verbatim>\<open>k in x\<close> for a string \<open>k\<close>.\<close>

definition contains :: "string \<Rightarrow> json \<Rightarrow> pyerr + bool" where
  "contains k x =
     (case x of
        JObj kv \<Rightarrow> Inr (k \<in> set (map fst kv))
      | JArr xs \<Rightarrow> Inr (JStr k \<in> set xs)
      | JStr s \<Rightarrow> Inr (occurs_in k s)
      | _ \<Rightarrow> Inl TypeError)"

text \<open>\<^verbatim>\<open>len(x)\<close>; the items of a dict have distinct keys.\<close>

definition py_len :: "json \<Rightarrow> pyerr + nat" where
  "py_len x =
     (case x of
        JStr s \<Rightarrow> Inr (length s)
      | JArr xs \<Rightarrow> Inr (length xs)
      | JObj kv \<Rightarrow> Inr (length kv)
      | _ \<Rightarrow> Inl TypeError)"

text \<open>The values a \<^verbatim>\<open>for\<close> loop over \<open>x\<close> visits: a dict gives its keys, a str its characters.\<close>

definition iterate :: "json \<Rightarrow> pyerr + json list" where
  "iterate x =
     (case x of
        JArr xs \<Rightarrow> Inr xs
      | JStr s \<Rightarrow> Inr (map (\<lambda>c. JStr [c]) s)
      | JObj kv \<Rightarrow> Inr (map (\<lambda>(k, v). JStr k) kv)
      | _ \<Rightarrow> Inl TypeError)"

text \<open>\<^verbatim>\<open>x[:k]\<close>: lists and strings can be sliced.\<close>

definition slice_to :: "nat \<Rightarrow> json \<Rightarrow> pyerr + json" where
  "slice_to k x =
     (case x of
        JArr xs \<Rightarrow> Inr (JArr (take k xs))
      | JStr s \<Rightarrow> Inr (JStr (take k s))
      | _ \<Rightarrow> Inl TypeError)"

section \<open>The library functions the program calls\<close>

text \<open>
  The standard library is not part of the program; what it computes is a parameter:
  \<^item> \<open>now_iso n\<close> is the text of \<^verbatim>\<open>datetime.now().isoformat()\<close> at the n-th reading of the
    clock in a run;
  \<^item> \<open>iso_of_ms t\<close> is \<^verbatim>\<open>datetime.fromtimestamp(t / 1000).isoformat()\<close> for a number \<open>t\<close>,
    which raises for a time out of range;
  \<^item> \<open>str_of v\<close> is \<^verbatim>\<open>str(v)\<close> for a value that is not a string, as an f-string prints it.
\<close>

record runtime =
  now_iso :: "nat \<Rightarrow> string"
  iso_of_ms :: "rat \<Rightarrow> pyerr + string"
  str_of :: "json \<Rightarrow> string"

text \<open>A value inside an f-string: \<^verbatim>\<open>f"{v}"\<close>.\<close>

definition fmt :: "runtime \<Rightarrow> json \<Rightarrow> string" where
  "fmt rt v = (case v of JStr s \<Rightarrow> s | _ \<Rightarrow> str_of rt v)"

section \<open>Post Normalizer: parse_linkedin_posts\<close>

text \<open>
  Lines 134-135 and 164-165: the date of an element.
  \<^verbatim>\<open>created_time = element.get("created", {}).get("time", 0)\<close>
  \<^verbatim>\<open>date = datetime.fromtimestamp(created_time / 1000).isoformat() if created_time\<close>
  \<^verbatim>\<open>       else datetime.now().isoformat()\<close>
  The second component counts the readings of the clock. Dividing a str, a list or a dict
  raises TypeError; True counts as 1.
\<close>

definition created_time :: "json \<Rightarrow> pyerr + json" where
  "created_time element =
     andthen (dict_get element ''created'' (JObj [])) (\<lambda>created.
       dict_get created ''time'' (JInt 0))"

definition date_of :: "runtime \<Rightarrow> nat \<Rightarrow> json \<Rightarrow> pyerr + string \<times> nat" where
  "date_of rt n t =
     (if truthy t then
        (case t of
           JInt i \<Rightarrow> andthen (iso_of_ms rt (of_int i)) (\<lambda>d. Inr (d, n))
         | JFloat q \<Rightarrow> andthen (iso_of_ms rt q) (\<lambda>d. Inr (d, n))
         | JBool b \<Rightarrow> andthen (iso_of_ms rt 1) (\<lambda>d. Inr (d, n))
         | _ \<Rightarrow> Inl TypeError)
      else Inr (now_iso rt n, Suc n))"

text \<open>Lines 126-131: the text of a ugcPosts element.\<close>

definition ugc_content :: "json \<Rightarrow> pyerr + json" where
  "ugc_content element =
     andthen (contains ''specificContent'' element) (\<lambda>present.
       if present then
         andthen (dict_get element ''specificContent'' (JObj [])) (\<lambda>specific.
         andthen (dict_get specific ''com.linkedin.ugc.ShareContent'' (JObj [])) (\<lambda>linkedin_share.
         andthen (dict_get linkedin_share ''shareCommentary'' (JObj [])) (\<lambda>share_commentary.
           dict_get share_commentary ''text'' (JStr ''''))))
       else Inr (JStr ''''))"

text \<open>
  Lines 124-152: the ugcPosts rule. The result is the record appended to \<open>posts\<close>, if any,
  and the count of clock readings.
\<close>

definition parse_ugc :: "runtime \<Rightarrow> nat \<Rightarrow> json \<Rightarrow> pyerr + json option \<times> nat" where
  "parse_ugc rt n element =
     andthen (dict_get element ''id'' (JStr '''')) (\<lambda>ugc_post_id.
     andthen (ugc_content element) (\<lambda>content.
     andthen (created_time element) (\<lambda>t.
     andthen (date_of rt n t) (\<lambda>(date, n').
       let post_url =
             (if truthy ugc_post_id
              then ''https://www.linkedin.com/feed/update/urn:li:ugcPost:'' @ fmt rt ugc_post_id @ ''/''
              else '''')
       in if truthy content then
            Inr (Some (JObj [(''date'', JStr date),
                             (''content'', content),
                             (''url'', JStr post_url),
                             (''entity_urn'', JStr (''urn:li:ugcPost:'' @ fmt rt ugc_post_id))]), n')
          else Inr (None, n')))))"

text \<open>Lines 157-162: the text of a memberChangeLogs element.\<close>

definition fallback_content :: "json \<Rightarrow> pyerr + json" where
  "fallback_content element =
     andthen (contains ''commentary'' element) (\<lambda>has_commentary.
       if has_commentary then
         andthen (dict_get element ''commentary'' (JObj [])) (\<lambda>commentary.
           dict_get commentary ''text'' (JStr ''''))
       else
         andthen (contains ''text'' element) (\<lambda>has_text.
           if has_text then dict_get element ''text'' (JStr '''') else Inr (JStr '''')))"

text \<open>Lines 156-176: the memberChangeLogs rule.\<close>

definition parse_fallback :: "runtime \<Rightarrow> nat \<Rightarrow> json \<Rightarrow> pyerr + json option \<times> nat" where
  "parse_fallback rt n element =
     andthen (dict_get element ''entityUrn'' (JStr '''')) (\<lambda>entity_urn.
     andthen (fallback_content element) (\<lambda>content.
     andthen (created_time element) (\<lambda>t.
     andthen (date_of rt n t) (\<lambda>(date, n').
       let post_url =
             (if truthy entity_urn
              then ''https://www.linkedin.com/feed/update/'' @ fmt rt entity_urn @ ''/''
              else '''')
       in if truthy content \<or> truthy entity_urn then
            Inr (Some (JObj [(''date'', JStr date),
                             (''content'', content),
                             (''url'', JStr post_url),
                             (''entity_urn'', entity_urn)]), n')
          else Inr (None, n')))))"

text \<open>Lines 120-176: the body of the loop, for one element.\<close>

definition parse_element :: "runtime \<Rightarrow> nat \<Rightarrow> json \<Rightarrow> pyerr + json option \<times> nat" where
  "parse_element rt n element =
     andthen (contains ''specificContent'' element) (\<lambda>ugc.
       if ugc then parse_ugc rt n element else parse_fallback rt n element)"

text \<open>The loop of line 120, with the list \<open>posts\<close> it appends to.\<close>

fun parse_loop :: "runtime \<Rightarrow> json list \<Rightarrow> nat \<Rightarrow> json list \<Rightarrow> pyerr + json list \<times> nat" where
  "parse_loop rt posts n [] = Inr (posts, n)"
| "parse_loop rt posts n (element # elements) =
     andthen (parse_element rt n element) (\<lambda>(r, n').
       parse_loop rt (case r of None \<Rightarrow> posts | Some post \<Rightarrow> posts @ [post]) n' elements)"

text \<open>Lines 107-179.\<close>

definition parse_linkedin_posts :: "runtime \<Rightarrow> nat \<Rightarrow> json \<Rightarrow> pyerr + json list \<times> nat" where
  "parse_linkedin_posts rt n linkedin_data =
     andthen (dict_get linkedin_data ''elements'' (JArr [])) (\<lambda>elements.
       if \<not> truthy elements then Inr ([], n)
       else
         andthen (iterate elements) (\<lambda>es.
         andthen (parse_loop rt [] n es) (\<lambda>(posts, n'). Inr (take 5 posts, n'))))"

section \<open>Document Assembler: generate_data_json\<close>

text \<open>
  \<^verbatim>\<open>str.split()\<close> with no separator: the maximal runs of characters that are not whitespace.
  Below code point 256 the whitespace of Python is 9 to 13, 28 to 32, 133 and 160.
  \<open>split_from w s\<close> scans \<open>s\<close> with the word read so far in \<open>w\<close>, reversed.
\<close>

definition isspace :: "char \<Rightarrow> bool" where
  "isspace c = (of_char c \<in> {9, 10, 11, 12, 13, 28, 29, 30, 31, 32, 133, 160 :: nat})"

fun split_from :: "string \<Rightarrow> string \<Rightarrow> string list" where
  "split_from w [] = (if w = [] then [] else [rev w])"
| "split_from w (c # s) =
     (if isspace c then (if w = [] then split_from [] s else rev w # split_from [] s)
      else split_from (c # w) s)"

definition split :: "string \<Rightarrow> string list" where
  "split s = split_from [] s"

text \<open>\<^verbatim>\<open>x.split()\<close>: only a str has the method.\<close>

definition str_split :: "json \<Rightarrow> pyerr + string list" where
  "str_split x = (case x of JStr s \<Rightarrow> Inr (split s) | _ \<Rightarrow> Inl AttributeError)"

text \<open>\<^verbatim>\<open>sep.join(words)\<close>.\<close>

fun join :: "string \<Rightarrow> string list \<Rightarrow> string" where
  "join sep [] = []"
| "join sep [w] = w"
| "join sep (w # v # ws) = w @ sep @ join sep (v # ws)"

text \<open>Lines 346-347: the preview text made from the words of the content.\<close>

definition preview_of :: "string list \<Rightarrow> string" where
  "preview_of ws =
     (let words = take 5 ws
      in join '' '' words @ (if length words \<ge> 5 then ''...'' else []))"

text \<open>
  Lines 342-353: \<open>latest_linkedin_post\<close>. The argument \<open>posts\<close> is the list the normalizer
  returned, so \<^verbatim>\<open>posts and len(posts) > 0\<close> holds exactly when it is not empty.
\<close>

definition latest_post :: "json list \<Rightarrow> pyerr + json" where
  "latest_post posts =
     (case posts of
        [] \<Rightarrow> Inr JNull
      | p # _ \<Rightarrow>
          andthen (dict_get p ''content'' (JStr [])) (\<lambda>content.
          andthen (str_split content) (\<lambda>ws.
          andthen (dict_get p ''url'' (JStr [])) (\<lambda>url.
            Inr (JObj [(''preview'', JStr (preview_of ws)),
                       (''url'', url),
                       (''full_content'', content)])))))"

text \<open>\<^verbatim>\<open>os.getenv(k, d)\<close> on the environment \<open>env\<close>.\<close>

definition getenv :: "(string \<rightharpoonup> string) \<Rightarrow> string \<Rightarrow> string \<Rightarrow> string" where
  "getenv env k d = (case env k of Some v \<Rightarrow> v | None \<Rightarrow> d)"

text \<open>\<^verbatim>\<open>not os.getenv(k)\<close>: the variable is unset or empty.\<close>

definition missing :: "(string \<rightharpoonup> string) \<Rightarrow> string \<Rightarrow> bool" where
  "missing env k = (case env k of None \<Rightarrow> True | Some v \<Rightarrow> v = [])"

text \<open>Lines 342-368: the dict \<open>data\<close>; \<open>n\<close> is the clock reading that \<open>last_updated\<close> takes.\<close>

definition document ::
  "runtime \<Rightarrow> (string \<rightharpoonup> string) \<Rightarrow> nat \<Rightarrow> json list \<Rightarrow> json \<Rightarrow> json list \<Rightarrow> pyerr + json" where
  "document rt env n posts github_activity youtube_videos =
     andthen (latest_post posts) (\<lambda>latest_linkedin_post.
       Inr (JObj
         [(''name'', JStr (getenv env ''PORTFOLIO_NAME'' ''Your Name'')),
          (''title'', JStr (getenv env ''PORTFOLIO_TITLE'' ''Your Title'')),
          (''linkedin_posts'', JArr posts),
          (''latest_linkedin_post'', latest_linkedin_post),
          (''github_activity'', github_activity),
          (''youtube_videos'', JArr youtube_videos),
          (''contact'', JObj
             [(''email'', JStr (getenv env ''PORTFOLIO_EMAIL'' ''your.email@example.com'')),
              (''github'', JStr (getenv env ''PORTFOLIO_GITHUB'' ''yourusername'')),
              (''linkedin'', JStr (getenv env ''PORTFOLIO_LINKEDIN''
                                     ''https://linkedin.com/in/yourprofile''))]),
          (''last_updated'', JStr (now_iso rt n))]))"

text \<open>
  The two files the program writes, each holding the value last dumped into it (None: the
  file does not exist). They outlive a run: the next run starts from what this one left.
  Opening and writing a file is taken to succeed. The log is not modelled: no property
  below reads it, and the one expression inside a log call that can raise (line 99) is kept.
\<close>

record files =
  data_file :: "json option"
  raw_linkedin_file :: "json option"

text \<open>Lines 339-373. An exception leaves before the file is opened.\<close>

definition generate_data_json ::
  "runtime \<Rightarrow> (string \<rightharpoonup> string) \<Rightarrow> nat \<Rightarrow> files \<Rightarrow> json list \<Rightarrow> json \<Rightarrow> json list
     \<Rightarrow> (pyerr + unit) \<times> files" where
  "generate_data_json rt env n fs posts github_activity youtube_videos =
     (case document rt env n posts github_activity youtube_videos of
        Inl e \<Rightarrow> (Inl e, fs)
      | Inr data \<Rightarrow> (Inr (), fs\<lparr>data_file := Some data\<rparr>))"

section \<open>The network\<close>

text \<open>
  What \<^verbatim>\<open>requests.get\<close> does is an input of a run: it raises a RequestException (\<open>Failed\<close>),
  or it returns a response with a status code and a body; the body is what
  \<^verbatim>\<open>response.json()\<close> returns or raises. Each of the six requests of the program is a function
  of what the program puts into it: the access token; the clock reading the start time is
  computed from; the user name; the repository name inside the URL; the channel
  identifier; the playlist identifier and \<open>maxResults\<close>.
\<close>

datatype http = Failed | Answered nat "pyerr + json"

record network =
  ugcPosts :: "string \<Rightarrow> http"
  memberChangeLogs :: "string \<Rightarrow> http"
  user_repos :: "string \<Rightarrow> http"
  repo_commits :: "string \<Rightarrow> http"
  channels :: "string \<Rightarrow> http"
  playlistItems :: "json \<Rightarrow> int \<Rightarrow> http"

text \<open>\<^verbatim>\<open>response.raise_for_status()\<close> raises HTTPError, a RequestException, on 4xx and 5xx.\<close>

definition raise_for_status :: "nat \<Rightarrow> pyerr + unit" where
  "raise_for_status code = (if 400 \<le> code \<and> code < 600 then Inl RequestException else Inr ())"

text \<open>\<^verbatim>\<open>try: ... except requests.exceptions.RequestException: return d\<close>.\<close>

definition except_request :: "pyerr + 'a \<Rightarrow> 'a \<Rightarrow> pyerr + 'a" where
  "except_request m d =
     (case m of Inl e \<Rightarrow> (if e = RequestException then Inr d else Inl e) | Inr x \<Rightarrow> Inr x)"

section \<open>Social-Post Fetcher: fetch_linkedin_data\<close>

definition no_elements :: json where
  "no_elements = JObj [(''elements'', JArr [])]"

text \<open>
  Lines 75-89: the response that lines 91-100 work on, and the count of clock readings
  (line 80 reads the clock before the second request).
\<close>

definition linkedin_response :: "runtime \<Rightarrow> network \<Rightarrow> string \<Rightarrow> nat \<Rightarrow> http \<times> nat" where
  "linkedin_response rt net token n =
     (case ugcPosts net token of
        Failed \<Rightarrow> (Failed, n)
      | Answered code body \<Rightarrow>
          (if code \<noteq> 200 then (memberChangeLogs net (now_iso rt n), Suc n)
           else (Answered code body, n)))"

text \<open>
  Lines 49-104. The raw file is written at lines 95-96; line 99 evaluates
  \<^verbatim>\<open>len(data.get('elements', []))\<close> after that, and the except clause does not catch what
  it raises.
\<close>

definition fetch_linkedin_data ::
  "runtime \<Rightarrow> (string \<rightharpoonup> string) \<Rightarrow> network \<Rightarrow> nat \<Rightarrow> files \<Rightarrow> (pyerr + json \<times> nat) \<times> files" where
  "fetch_linkedin_data rt env net n fs =
     (if missing env ''linkedin_access_token'' then (Inl ValueError, fs)
      else
        (case linkedin_response rt net (getenv env ''linkedin_access_token'' []) n of
           (Failed, n') \<Rightarrow> (Inr (no_elements, n'), fs)
         | (Answered code body, n') \<Rightarrow>
             (case andthen (raise_for_status code) (\<lambda>_. body) of
                Inl e \<Rightarrow> (if e = RequestException then (Inr (no_elements, n'), fs) else (Inl e, fs))
              | Inr data \<Rightarrow>
                  (case andthen (dict_get data ''elements'' (JArr [])) py_len of
                     Inl e \<Rightarrow> (Inl e, fs\<lparr>raw_linkedin_file := Some data\<rparr>)
                   | Inr _ \<Rightarrow> (Inr (data, n'), fs\<lparr>raw_linkedin_file := Some data\<rparr>)))))"

section \<open>Code-Activity Fetcher: fetch_github_activity\<close>

fun map_err :: "('a \<Rightarrow> pyerr + 'b) \<Rightarrow> 'a list \<Rightarrow> pyerr + 'b list" where
  "map_err f [] = Inr []"
| "map_err f (x # xs) = andthen (f x) (\<lambda>y. andthen (map_err f xs) (\<lambda>ys. Inr (y # ys)))"

text \<open>\<^verbatim>\<open>x.split('\n')[0]\<close>: the text before the first line feed.\<close>

definition first_line :: "json \<Rightarrow> pyerr + string" where
  "first_line x =
     (case x of JStr s \<Rightarrow> Inr (takeWhile (\<lambda>c. c \<noteq> CHR 0x0A) s) | _ \<Rightarrow> Inl AttributeError)"

text \<open>Lines 234-237: one entry of \<open>latest_commits\<close>.\<close>

definition commit_summary :: "json \<Rightarrow> pyerr + json" where
  "commit_summary commit =
     andthen (dict_get commit ''sha'' (JStr [])) (\<lambda>sha.
     andthen (slice_to 7 sha) (\<lambda>sha7.
     andthen (dict_get commit ''commit'' (JObj [])) (\<lambda>c.
     andthen (dict_get c ''message'' (JStr [])) (\<lambda>message.
     andthen (first_line message) (\<lambda>line.
       Inr (JObj [(''sha'', sha7), (''message'', JStr line)]))))))"

text \<open>Lines 228-241: the bare \<^verbatim>\<open>except:\<close> turns every exception into the empty list.\<close>

definition latest_commits :: "network \<Rightarrow> string \<Rightarrow> json" where
  "latest_commits net repo =
     (case repo_commits net repo of
        Failed \<Rightarrow> JArr []
      | Answered code body \<Rightarrow>
          (case andthen (raise_for_status code) (\<lambda>_.
                andthen body (\<lambda>commits_data.
                andthen (slice_to 3 commits_data) (\<lambda>first3.
                andthen (iterate first3) (map_err commit_summary)))) of
             Inl e \<Rightarrow> JArr []
           | Inr commits \<Rightarrow> JArr commits))"

text \<open>Lines 215-251: what is done with the parsed list of repositories.\<close>

definition github_summary :: "runtime \<Rightarrow> network \<Rightarrow> json \<Rightarrow> pyerr + json" where
  "github_summary rt net repos =
     andthen (if truthy repos then andthen (py_len repos) (\<lambda>l. Inr (l > 0)) else Inr False)
       (\<lambda>found.
         if found then
           andthen (subscript0 repos) (\<lambda>latest_repo.
           andthen (dict_get latest_repo ''full_name'' (JStr [])) (\<lambda>repo_full_name.
           andthen (dict_get latest_repo ''name'' (JStr [])) (\<lambda>repo_name.
           andthen (dict_get latest_repo ''pushed_at'' (JStr [])) (\<lambda>pushed_at.
             Inr (JObj [(''repo'', repo_full_name),
                        (''repo_name'', repo_name),
                        (''commits'', latest_commits net (fmt rt repo_full_name)),
                        (''pushed_at'', pushed_at)])))))
         else Inr JNull)"

text \<open>Lines 182-255.\<close>

definition fetch_github_activity ::
  "runtime \<Rightarrow> (string \<rightharpoonup> string) \<Rightarrow> network \<Rightarrow> pyerr + json" where
  "fetch_github_activity rt env net =
     (if missing env ''PORTFOLIO_GITHUB'' then Inr JNull
      else
        (case user_repos net (getenv env ''PORTFOLIO_GITHUB'' []) of
           Failed \<Rightarrow> Inr JNull
         | Answered code body \<Rightarrow>
             except_request
               (andthen (raise_for_status code) (\<lambda>_.
                andthen body (github_summary rt net)))
               JNull))"

section \<open>Video-Upload Fetcher\<close>

text \<open>
  Lines 283-289: the uploads playlist inside the answer of the channel lookup; \<open>JNull\<close> is
  the None of line 289.
\<close>

definition uploads_of :: "json \<Rightarrow> pyerr + json" where
  "uploads_of data =
     andthen (contains ''items'' data) (\<lambda>has_items.
     andthen (if has_items
              then andthen (subscript data ''items'') (\<lambda>items.
                   andthen (py_len items) (\<lambda>l. Inr (l > 0)))
              else Inr False) (\<lambda>found.
       if found then
         andthen (subscript data ''items'') (\<lambda>items.
         andthen (subscript0 items) (\<lambda>first.
         andthen (subscript first ''contentDetails'') (\<lambda>details.
         andthen (subscript details ''relatedPlaylists'') (\<lambda>related.
           subscript related ''uploads''))))
       else Inr JNull))"

text \<open>Lines 258-293.\<close>

definition fetch_youtube_uploads_playlist ::
  "(string \<rightharpoonup> string) \<Rightarrow> network \<Rightarrow> pyerr + json" where
  "fetch_youtube_uploads_playlist env net =
     (if missing env ''youtube_api_key'' \<or> missing env ''youtube_channel_ID'' then Inr JNull
      else
        (case channels net (getenv env ''youtube_channel_ID'' []) of
           Failed \<Rightarrow> Inr JNull
         | Answered code body \<Rightarrow>
             except_request (andthen (raise_for_status code) (\<lambda>_. andthen body uploads_of)) JNull))"

text \<open>Lines 322-329: the entry made from one item of the playlist.\<close>

definition video_of :: "json \<Rightarrow> pyerr + json" where
  "video_of item =
     andthen (dict_get item ''snippet'' (JObj [])) (\<lambda>snippet.
     andthen (dict_get snippet ''resourceId'' (JObj [])) (\<lambda>resource.
     andthen (dict_get resource ''videoId'' (JStr [])) (\<lambda>video_id.
     andthen (dict_get snippet ''title'' (JStr [])) (\<lambda>title.
     andthen (dict_get snippet ''publishedAt'' (JStr [])) (\<lambda>published_at.
     andthen (dict_get snippet ''thumbnails'' (JObj [])) (\<lambda>thumbnails.
     andthen (dict_get thumbnails ''high'' (JObj [])) (\<lambda>high.
     andthen (dict_get high ''url'' (JStr [])) (\<lambda>url.
       Inr (JObj [(''title'', title),
                  (''video_id'', video_id),
                  (''published_at'', published_at),
                  (''thumbnail'', url)])))))))))"

text \<open>Lines 318-332: the list made from the parsed answer of the playlist request.\<close>

definition videos_of :: "json \<Rightarrow> pyerr + json list" where
  "videos_of data =
     andthen (dict_get data ''items'' (JArr [])) (\<lambda>items.
     andthen (iterate items) (map_err video_of))"

text \<open>
  Lines 296-336. \<open>max_results\<close> goes into the request (and a log line) and nowhere else.
\<close>

definition fetch_youtube_latest_videos ::
  "(string \<rightharpoonup> string) \<Rightarrow> network \<Rightarrow> int \<Rightarrow> pyerr + json list" where
  "fetch_youtube_latest_videos env net max_results =
     andthen (fetch_youtube_uploads_playlist env net) (\<lambda>uploads_playlist_id.
       if \<not> truthy uploads_playlist_id then Inr []
       else
         (case playlistItems net uploads_playlist_id max_results of
            Failed \<Rightarrow> Inr []
          | Answered code body \<Rightarrow>
              except_request (andthen (raise_for_status code) (\<lambda>_. andthen body videos_of)) []))"

section \<open>The run: load_env and main\<close>

text \<open>
  Lines 38-46. \<open>dotenv\<close> is the content of the .env file, None when the file does not exist.
  \<^verbatim>\<open>load_dotenv\<close> adds the pairs of the file to the environment of the process and keeps
  a variable that is already set.
\<close>

definition load_env ::
  "(string \<rightharpoonup> string) \<Rightarrow> (string \<rightharpoonup> string) option \<Rightarrow> pyerr + (string \<rightharpoonup> string)" where
  "load_env environ dotenv =
     (case dotenv of None \<Rightarrow> Inl FileNotFoundError | Some pairs \<Rightarrow> Inr (pairs ++ environ))"

text \<open>
  Lines 376-407. The except clause of main logs the exception and raises it again, so the
  result of a failed run is the exception, with the files as they were left.
\<close>

definition main ::
  "runtime \<Rightarrow> (string \<rightharpoonup> string) \<Rightarrow> (string \<rightharpoonup> string) option \<Rightarrow> network \<Rightarrow> files
     \<Rightarrow> (pyerr + unit) \<times> files" where
  "main rt environ dotenv net fs =
     (case load_env environ dotenv of
        Inl e \<Rightarrow> (Inl e, fs)
      | Inr env \<Rightarrow>
          (case fetch_linkedin_data rt env net 0 fs of
             (Inl e, fs') \<Rightarrow> (Inl e, fs')
           | (Inr (linkedin_data, n), fs') \<Rightarrow>
               (case andthen (parse_linkedin_posts rt n linkedin_data) (\<lambda>(posts, n').
                     andthen (fetch_github_activity rt env net) (\<lambda>github_activity.
                     andthen (fetch_youtube_latest_videos env net 5) (\<lambda>youtube_videos.
                       Inr (posts, n', github_activity, youtube_videos)))) of
                  Inl e \<Rightarrow> (Inl e, fs')
                | Inr (posts, n', github_activity, youtube_videos) \<Rightarrow>
                    generate_data_json rt env n' fs' posts github_activity youtube_videos)))"

section \<open>Vocabulary of the statements\<close>

text \<open>
  The rule of the specification for the content of a memberChangeLogs element, in its own
  words: the text of the commentary if present, else the text of the element if present,
  else empty. It is compared with \<open>fallback_content\<close> below.
\<close>

definition spec_fallback_content :: "json \<Rightarrow> json" where
  "spec_fallback_content element =
     (case element of
        JObj kv \<Rightarrow>
          (case (case map_of kv ''commentary'' of
                   Some (JObj ckv) \<Rightarrow> map_of ckv ''text''
                 | _ \<Rightarrow> None) of
             Some t \<Rightarrow> t
           | None \<Rightarrow> (case map_of kv ''text'' of Some t \<Rightarrow> t | None \<Rightarrow> JStr []))
      | _ \<Rightarrow> JStr [])"

text \<open>An element carries a creation time that is not zero, so line 135 does not read the clock.\<close>

definition dated :: "json \<Rightarrow> bool" where
  "dated element = (case created_time element of Inr t \<Rightarrow> truthy t | Inl e \<Rightarrow> False)"

text \<open>The list a call of the normalizer returns, or the exception it raises.\<close>

definition returned :: "pyerr + json list \<times> nat \<Rightarrow> pyerr + json list" where
  "returned r = (case r of Inl e \<Rightarrow> Inl e | Inr (posts, n) \<Rightarrow> Inr posts)"

section \<open>Sample inputs\<close>

text \<open>Concrete runs, used to evaluate the definitions above.\<close>

definition sample_runtime :: runtime where
  "sample_runtime =
     \<lparr>now_iso = (\<lambda>n. if n = 0 then ''2024-05-01T09:00:00'' else ''2024-05-01T09:00:07''),
      iso_of_ms = (\<lambda>t. Inr ''2023-11-14T22:13:20''),
      str_of = (\<lambda>v. ''None'')\<rparr>"

definition sample_env :: "string \<rightharpoonup> string" where
  "sample_env = map_of
     [(''linkedin_access_token'', ''token''),
      (''PORTFOLIO_GITHUB'', ''octocat''),
      (''youtube_api_key'', ''key''),
      (''youtube_channel_ID'', ''UC123'')]"

text \<open>An element of the ugcPosts answer, with and without its creation time.\<close>

definition ugc_text :: "string \<Rightarrow> json" where
  "ugc_text s =
     JObj [(''com.linkedin.ugc.ShareContent'',
            JObj [(''shareCommentary'', JObj [(''text'', JStr s)])])]"

definition undated_element :: json where
  "undated_element =
     JObj [(''id'', JStr ''7001''),
           (''specificContent'', ugc_text ''Hello world this is a long post'')]"

definition dated_element :: json where
  "dated_element =
     JObj [(''id'', JStr ''7001''),
           (''specificContent'', ugc_text ''Hello world this is a long post''),
           (''created'', JObj [(''time'', JInt 1700000000000)])]"

text \<open>Items of the playlist answer and the channel answer that leads to them.\<close>

definition playlist_item :: "string \<Rightarrow> json" where
  "playlist_item v =
     JObj [(''snippet'',
            JObj [(''title'', JStr v),
                  (''resourceId'', JObj [(''videoId'', JStr v)]),
                  (''publishedAt'', JStr ''2024-04-30T12:00:00Z'')])]"

definition channel_answer :: json where
  "channel_answer =
     JObj [(''items'',
            JArr [JObj [(''contentDetails'',
                         JObj [(''relatedPlaylists'', JObj [(''uploads'', JStr ''UU123'')])])]])]"

text \<open>
  A network where every request is answered: one post, one repository with one commit, and
  a playlist of two items whatever \<open>maxResults\<close> asks for.
\<close>

definition sample_net :: network where
  "sample_net =
     \<lparr>ugcPosts = (\<lambda>token. Answered 200 (Inr (JObj [(''elements'', JArr [dated_element])]))),
      memberChangeLogs = (\<lambda>now. Failed),
      user_repos = (\<lambda>user. Answered 200
         (Inr (JArr [JObj [(''full_name'', JStr ''octocat/site''),
                           (''name'', JStr ''site''),
                           (''pushed_at'', JStr ''2024-04-29T08:00:00Z'')]]))),
      repo_commits = (\<lambda>repo. Answered 200
         (Inr (JArr [JObj [(''sha'', JStr ''0123456789abcdef''),
                           (''commit'', JObj [(''message'', JStr ''Fix typo'')])]]))),
      channels = (\<lambda>channel. Answered 200 (Inr channel_answer)),
      playlistItems = (\<lambda>playlist max_results. Answered 200
         (Inr (JObj [(''items'', JArr [playlist_item ''a1'', playlist_item ''b2''])])))\<rparr>"

text \<open>A network where every request fails before an answer arrives.\<close>

definition offline :: network where
  "offline =
     \<lparr>ugcPosts = (\<lambda>token. Failed),
      memberChangeLogs = (\<lambda>now. Failed),
      user_repos = (\<lambda>user. Failed),
      repo_commits = (\<lambda>repo. Failed),
      channels = (\<lambda>channel. Failed),
      playlistItems = (\<lambda>playlist max_results. Failed)\<rparr>"

text \<open>The files a previous run left.\<close>

definition old_files :: files where
  "old_files =
     \<lparr>data_file = Some (JObj [(''name'', JStr ''previous'')]),
      raw_linkedin_file = Some (JObj [(''elements'', JArr [])])\<rparr>"

text \<open>A normalized post with the given content.\<close>

definition sample_post :: "string \<Rightarrow> json" where
  "sample_post c =
     JObj [(''date'', JStr ''2023-11-14T22:13:20''),
           (''content'', JStr c),
           (''url'', JStr ''https://www.linkedin.com/feed/update/urn:li:ugcPost:7001/''),
           (''entity_urn'', JStr ''urn:li:ugcPost:7001'')]"

text \<open>
  Elements of the memberChangeLogs answer: one whose commentary has no text while the
  element has a text of its own, one with an identifier only, and a ugcPosts element with
  an identifier and no text.
\<close>

definition commentary_without_text :: json where
  "commentary_without_text =
     JObj [(''entityUrn'', JStr ''urn:li:share:9''),
           (''commentary'', JObj []),
           (''text'', JStr ''hello''),
           (''created'', JObj [(''time'', JInt 1700000000000)])]"

definition fallback_identifier_only :: json where
  "fallback_identifier_only =
     JObj [(''entityUrn'', JStr ''urn:li:share:9''),
           (''created'', JObj [(''time'', JInt 1700000000000)])]"

definition ugc_identifier_only :: json where
  "ugc_identifier_only =
     JObj [(''id'', JStr ''7001''),
           (''specificContent'', JObj []),
           (''created'', JObj [(''time'', JInt 1700000000000)])]"

text \<open>An element that has the keys of both shapes.\<close>

definition both_shapes_items :: "(string \<times> json) list" where
  "both_shapes_items =
     [(''id'', JStr ''7001''),
      (''entityUrn'', JStr ''urn:li:share:9''),
      (''specificContent'', ugc_text ''primary text''),
      (''commentary'', JObj [(''text'', JStr ''fallback text'')]),
      (''created'', JObj [(''time'', JInt 1700000000000)])]"

definition both_shapes_element :: json where
  "both_shapes_element = JObj both_shapes_items"

text \<open>The answers of the ugcPosts request made of one element.\<close>

definition undated_payload :: json where
  "undated_payload = JObj [(''elements'', JArr [undated_element])]"

definition dated_payload :: json where
  "dated_payload = JObj [(''elements'', JArr [dated_element])]"

section \<open>Properties\<close>

lemma andthen_simps [simp]:
  "andthen (Inl e) f = Inl e"
  "andthen (Inr x) f = f x"
  by (simp_all add: andthen_def)

subsection \<open>Missing credentials\<close>

text \<open>
  C8. A missing credential never raises. When the account identifier
  (\<open>PORTFOLIO_GITHUB\<close>) is unset or empty the Code-Activity Fetcher returns None, and when
  the API key or the channel identifier is unset or empty the Video-Upload Fetcher returns
  the empty list, whatever the other credentials are and whatever the network would answer.
\<close>

theorem missing_credentials_degrade:
  "(missing env ''PORTFOLIO_GITHUB'' \<longrightarrow> fetch_github_activity rt env net = Inr JNull) \<and>
   (missing env ''youtube_api_key'' \<or> missing env ''youtube_channel_ID'' \<longrightarrow>
      fetch_youtube_latest_videos env net max_results = Inr [])"
  by (simp add: fetch_github_activity_def fetch_youtube_latest_videos_def
      fetch_youtube_uploads_playlist_def)

theorem missing_credentials_degrade_witness:
  "missing (map_of [(''youtube_api_key'', ''key'')]) ''PORTFOLIO_GITHUB'' \<and>
   missing (map_of [(''youtube_api_key'', ''key'')]) ''youtube_channel_ID'' \<and>
   fetch_github_activity sample_runtime (map_of [(''youtube_api_key'', ''key'')]) sample_net
     = Inr JNull \<and>
   fetch_youtube_latest_videos (map_of [(''youtube_api_key'', ''key'')]) sample_net 5 = Inr []"
  using missing_credentials_degrade
    [of "map_of [(''youtube_api_key'', ''key'')]" sample_runtime sample_net 5]
  by (simp add: missing_def)

subsection \<open>Fatal errors\<close>

text \<open>
  C9. When the configuration file does not exist the run ends with FileNotFoundError, and
  when the environment it loads has no social-post access token the run ends with
  ValueError; main raises the error again, and in both cases the files are left exactly as
  the run found them, the output document among them.
\<close>

theorem fatal_error_keeps_document:
  "main rt environ None net fs = (Inl FileNotFoundError, fs) \<and>
   (missing (pairs ++ environ) ''linkedin_access_token'' \<longrightarrow>
      main rt environ (Some pairs) net fs = (Inl ValueError, fs))"
  by (simp add: main_def load_env_def fetch_linkedin_data_def)

theorem fatal_error_keeps_document_witness:
  "missing (Map.empty ++ Map.empty) ''linkedin_access_token'' \<and>
   main sample_runtime Map.empty None sample_net old_files = (Inl FileNotFoundError, old_files) \<and>
   main sample_runtime Map.empty (Some Map.empty) sample_net old_files
     = (Inl ValueError, old_files)"
  using fatal_error_keeps_document [of sample_runtime Map.empty sample_net old_files Map.empty]
  by (simp add: missing_def)

subsection \<open>The raw debug artifact\<close>

text \<open>
  C10. With an access token configured, when the request that would deliver the response
  fails at the network level (the ugcPosts request itself, or the memberChangeLogs request
  made after a ugcPosts answer other than 200), the Social-Post Fetcher returns the empty
  result set without raising and leaves both files as they were. In every run the fetcher
  either leaves the files untouched or has obtained a response whose status is no error and
  whose body parsed, and then the raw file holds exactly that body and nothing else changed.
\<close>

theorem network_failure_keeps_raw_file:
  "(\<not> missing env ''linkedin_access_token'' \<and>
     (ugcPosts net (getenv env ''linkedin_access_token'' []) = Failed \<or>
      (\<exists>code body. ugcPosts net (getenv env ''linkedin_access_token'' []) = Answered code body \<and>
          code \<noteq> 200 \<and> memberChangeLogs net (now_iso rt n) = Failed))
     \<longrightarrow> (\<exists>n'. fetch_linkedin_data rt env net n fs = (Inr (no_elements, n'), fs)))
   \<and> (snd (fetch_linkedin_data rt env net n fs) = fs \<or>
      (\<exists>code data. fst (linkedin_response rt net (getenv env ''linkedin_access_token'' []) n)
            = Answered code (Inr data) \<and> \<not> (400 \<le> code \<and> code < 600) \<and>
         snd (fetch_linkedin_data rt env net n fs) = fs\<lparr>raw_linkedin_file := Some data\<rparr>))"
  by (auto simp: fetch_linkedin_data_def linkedin_response_def raise_for_status_def
      split: http.splits sum.splits prod.splits if_splits)

theorem network_failure_keeps_raw_file_witness:
  "\<not> missing sample_env ''linkedin_access_token'' \<and>
   ugcPosts offline (getenv sample_env ''linkedin_access_token'' []) = Failed \<and>
   fetch_linkedin_data sample_runtime sample_env offline 0 old_files
     = (Inr (no_elements, 0), old_files)"
  using network_failure_keeps_raw_file [of sample_env offline sample_runtime 0 old_files]
  by (simp add: missing_def sample_env_def offline_def fetch_linkedin_data_def
      linkedin_response_def getenv_def)

text \<open>The other side: an answered request replaces the raw file by the answer.\<close>

lemma answered_request_writes_raw_file:
  "fetch_linkedin_data sample_runtime sample_env sample_net 0 old_files
     = (Inr (JObj [(''elements'', JArr [dated_element])], 0),
        old_files\<lparr>raw_linkedin_file := Some (JObj [(''elements'', JArr [dated_element])])\<rparr>)"
  by (simp add: fetch_linkedin_data_def linkedin_response_def missing_def getenv_def
      sample_env_def sample_net_def raise_for_status_def dict_get_def py_len_def)

subsection \<open>The length of the video list\<close>

lemma map_err_length: "map_err f xs = Inr ys \<Longrightarrow> length ys = length xs"
proof (induction xs arbitrary: ys)
  case Nil
  then show ?case by simp
next
  case (Cons x xs)
  then show ?case
    by (cases "f x"; cases "map_err f xs") auto
qed

text \<open>
  The list that the Video-Upload Fetcher builds has one entry for each item of the answer:
  nothing in lines 318-332 looks at \<open>max_results\<close>.
\<close>

lemma videos_of_length:
  "map_of kv ''items'' = Some (JArr items) \<Longrightarrow> videos_of (JObj kv) = Inr videos
     \<Longrightarrow> length videos = length items"
  by (simp add: videos_of_def dict_get_def iterate_def map_err_length)

text \<open>
  C4. The claim is that the returned list is never longer than \<open>max_results\<close>, however many
  items the answer holds. The code does not cut the list: asked for at most one video and
  answered with two items, it returns two entries.
\<close>

theorem videos_exceed_max_results:
  "fetch_youtube_latest_videos sample_env sample_net 1 =
     Inr [JObj [(''title'', JStr ''a1''), (''video_id'', JStr ''a1''),
                (''published_at'', JStr ''2024-04-30T12:00:00Z''), (''thumbnail'', JStr [])],
          JObj [(''title'', JStr ''b2''), (''video_id'', JStr ''b2''),
                (''published_at'', JStr ''2024-04-30T12:00:00Z''), (''thumbnail'', JStr [])]]"
  by (simp add: fetch_youtube_latest_videos_def fetch_youtube_uploads_playlist_def
      missing_def getenv_def sample_env_def sample_net_def channel_answer_def
      playlist_item_def uploads_of_def contains_def subscript_def subscript0_def py_len_def
      raise_for_status_def except_request_def videos_of_def video_of_def dict_get_def
      iterate_def)

subsection \<open>Words of a text\<close>

text \<open>
  \<open>split\<close> returns words: none is empty and none holds a whitespace character. It undoes
  \<open>join\<close> with a single blank on every list of such words, so the words of a text are the
  runs between its whitespace.
\<close>

lemma split_from_words:
  "\<forall>c\<in>set w. \<not> isspace c \<Longrightarrow>
   \<forall>v\<in>set (split_from w s). v \<noteq> [] \<and> (\<forall>c\<in>set v. \<not> isspace c)"
proof (induction s arbitrary: w)
  case Nil
  then show ?case by simp
next
  case (Cons a s)
  have blank: "\<forall>v\<in>set (split_from [] s). v \<noteq> [] \<and> (\<forall>c\<in>set v. \<not> isspace c)"
    by (rule Cons.IH) simp
  show ?case
  proof (cases "isspace a")
    case True
    with blank Cons.prems show ?thesis by simp
  next
    case False
    with Cons.prems have "\<forall>c\<in>set (a # w). \<not> isspace c" by simp
    from Cons.IH [OF this] False show ?thesis by simp
  qed
qed

lemma split_words: "v \<in> set (split s) \<Longrightarrow> v \<noteq> [] \<and> (\<forall>c\<in>set v. \<not> isspace c)"
  using split_from_words [of "[]" s] by (simp add: split_def)

lemma split_from_word:
  "\<forall>c\<in>set u. \<not> isspace c \<Longrightarrow> split_from w (u @ s) = split_from (rev u @ w) s"
  by (induction u arbitrary: w) auto

lemma isspace_blank: "isspace (CHR '' '')"
  by (simp add: isspace_def)

lemma split_join:
  "\<forall>w\<in>set ws. w \<noteq> [] \<and> (\<forall>c\<in>set w. \<not> isspace c) \<Longrightarrow> split (join '' '' ws) = ws"
proof (induction ws)
  case Nil
  then show ?case by (simp add: split_def)
next
  case (Cons w ws)
  then have w: "w \<noteq> []" "\<forall>c\<in>set w. \<not> isspace c" by simp_all
  show ?case
  proof (cases ws)
    case Nil
    have "split_from [] (w @ []) = split_from (rev w @ []) []"
      using w(2) by (rule split_from_word)
    with w(1) Nil show ?thesis by (simp add: split_def)
  next
    case (Cons v vs)
    have "split_from [] (w @ (CHR '' '' # join '' '' ws))
        = split_from (rev w @ []) (CHR '' '' # join '' '' ws)"
      using w(2) by (rule split_from_word)
    moreover have "split (join '' '' ws) = ws"
      using Cons.IH Cons.prems by simp
    ultimately show ?thesis
      using w(1) Cons by (simp add: split_def isspace_blank)
  qed
qed

lemma preview_of_eq:
  "preview_of ws = join '' '' (take 5 ws) @ (if 5 \<le> length ws then ''...'' else [])"
  by (simp add: preview_of_def Let_def min_def)

subsection \<open>The latest-post preview\<close>

lemma dict_get_object:
  "dict_get p k d = Inr v \<Longrightarrow> \<exists>kv. p = JObj kv"
  by (cases p) (simp_all add: dict_get_def)

lemma latest_post_text:
  assumes "dict_get p ''content'' (JStr []) = Inr (JStr c)"
  shows "\<exists>url. latest_post (p # ps) =
           Inr (JObj [(''preview'', JStr (preview_of (split c))),
                      (''url'', url),
                      (''full_content'', JStr c)])"
proof -
  from assms obtain kv where p: "p = JObj kv"
    by (blast dest: dict_get_object)
  then obtain url where "dict_get p ''url'' (JStr []) = Inr url"
    by (simp add: dict_get_def)
  with assms show ?thesis
    by (simp add: latest_post_def str_split_def)
qed

lemma latest_post_not_text:
  assumes "\<not> (\<exists>c. dict_get p ''content'' (JStr []) = Inr (JStr c))"
  shows "\<exists>e. latest_post (p # ps) = Inl e"
proof (cases "dict_get p ''content'' (JStr [])")
  case (Inl e)
  then show ?thesis by (simp add: latest_post_def)
next
  case (Inr v)
  with assms have "\<forall>c. v \<noteq> JStr c" by simp
  then have "str_split v = Inl AttributeError"
    by (cases v) (simp_all add: str_split_def)
  with Inr show ?thesis by (simp add: latest_post_def)
qed

lemma document_fields:
  assumes "latest_post posts = Inr latest"
  shows "\<exists>doc. document rt env n posts github_activity youtube_videos = Inr (JObj doc) \<and>
           map fst doc = [''name'', ''title'', ''linkedin_posts'', ''latest_linkedin_post'',
                          ''github_activity'', ''youtube_videos'', ''contact'', ''last_updated''] \<and>
           map_of doc ''linkedin_posts'' = Some (JArr posts) \<and>
           map_of doc ''latest_linkedin_post'' = Some latest \<and>
           map_of doc ''github_activity'' = Some github_activity \<and>
           map_of doc ''youtube_videos'' = Some (JArr youtube_videos)"
  using assms by (simp add: document_def)

lemma generate_writes_document:
  "document rt env n posts github_activity youtube_videos = Inr data \<Longrightarrow>
   generate_data_json rt env n fs posts github_activity youtube_videos
     = (Inr (), fs\<lparr>data_file := Some data\<rparr>)"
  by (simp add: generate_data_json_def)

lemma generate_fails_unwritten:
  "latest_post posts = Inl e \<Longrightarrow>
   generate_data_json rt env n fs posts github_activity youtube_videos = (Inl e, fs)"
  by (simp add: generate_data_json_def document_def)

text \<open>
  C2. The Document Assembler writes None as the latest-post entry when the list of posts is
  empty. When the list is not empty and the content of its first post is a text, the entry
  is an object whose preview is the first 5 words of that text joined by single blanks,
  followed by three dots exactly when the text has 5 words or more.
\<close>

theorem latest_post_preview:
  "(\<exists>doc. generate_data_json rt env n fs [] github_activity youtube_videos
             = (Inr (), fs\<lparr>data_file := Some (JObj doc)\<rparr>) \<and>
          map_of doc ''latest_linkedin_post'' = Some JNull) \<and>
   (dict_get p ''content'' (JStr []) = Inr (JStr c) \<longrightarrow>
      (\<exists>doc url. generate_data_json rt env n fs (p # ps) github_activity youtube_videos
             = (Inr (), fs\<lparr>data_file := Some (JObj doc)\<rparr>) \<and>
          map_of doc ''latest_linkedin_post'' =
            Some (JObj [(''preview'',
                         JStr (join '' '' (take 5 (split c)) @
                               (if 5 \<le> length (split c) then ''...'' else []))),
                        (''url'', url),
                        (''full_content'', JStr c)])))"
proof (intro conjI impI)
  have "latest_post [] = Inr JNull"
    by (simp add: latest_post_def)
  from document_fields [OF this] generate_writes_document
  show "\<exists>doc. generate_data_json rt env n fs [] github_activity youtube_videos
             = (Inr (), fs\<lparr>data_file := Some (JObj doc)\<rparr>) \<and>
          map_of doc ''latest_linkedin_post'' = Some JNull"
    by blast
next
  assume "dict_get p ''content'' (JStr []) = Inr (JStr c)"
  then obtain url where
    "latest_post (p # ps) =
       Inr (JObj [(''preview'', JStr (preview_of (split c))),
                  (''url'', url),
                  (''full_content'', JStr c)])"
    using latest_post_text by blast
  from document_fields [OF this] generate_writes_document
  show "\<exists>doc url. generate_data_json rt env n fs (p # ps) github_activity youtube_videos
             = (Inr (), fs\<lparr>data_file := Some (JObj doc)\<rparr>) \<and>
          map_of doc ''latest_linkedin_post'' =
            Some (JObj [(''preview'',
                         JStr (join '' '' (take 5 (split c)) @
                               (if 5 \<le> length (split c) then ''...'' else []))),
                        (''url'', url),
                        (''full_content'', JStr c)])"
    unfolding preview_of_eq by blast
qed

theorem latest_post_preview_witness:
  "dict_get (sample_post ''one two three four'') ''content'' (JStr [])
     = Inr (JStr ''one two three four'') \<and>
   latest_post [sample_post ''one two three four''] =
     Inr (JObj [(''preview'', JStr ''one two three four''),
                (''url'', JStr ''https://www.linkedin.com/feed/update/urn:li:ugcPost:7001/''),
                (''full_content'', JStr ''one two three four'')]) \<and>
   fst (generate_data_json sample_runtime sample_env 0 old_files
          [sample_post ''one two three four''] JNull []) = Inr ()"
  using latest_post_preview
    [of sample_runtime sample_env 0 old_files JNull "[]"
        "sample_post ''one two three four''" "''one two three four''" "[]"]
  by (simp add: sample_post_def dict_get_def latest_post_def str_split_def split_def
      isspace_def preview_of_def generate_data_json_def document_def)

text \<open>Exactly 5 words: the dots are added although no word was cut off.\<close>

lemma five_words_preview:
  "latest_post [sample_post ''one two three four five''] =
     Inr (JObj [(''preview'', JStr ''one two three four five...''),
                (''url'', JStr ''https://www.linkedin.com/feed/update/urn:li:ugcPost:7001/''),
                (''full_content'', JStr ''one two three four five'')])"
  by (simp add: sample_post_def dict_get_def latest_post_def str_split_def split_def
      isspace_def preview_of_def)

subsection \<open>The keys of the output document\<close>

text \<open>
  C1. For every list of posts that is empty or starts with a post whose content is a text,
  every code-activity summary (None included) and every list of videos, the Document
  Assembler writes a document with all eight top-level keys, in which the posts, the
  code activity and the videos stand as they were passed: an empty list stays an empty
  list, None stays null. For any other list of posts the assembler raises before it opens
  the file, so no document is produced and the files are unchanged.
\<close>

theorem document_has_every_key:
  "((posts = [] \<or> (\<exists>c. dict_get (hd posts) ''content'' (JStr []) = Inr (JStr c))) \<longrightarrow>
      (\<exists>doc. generate_data_json rt env n fs posts github_activity youtube_videos
               = (Inr (), fs\<lparr>data_file := Some (JObj doc)\<rparr>) \<and>
         map fst doc = [''name'', ''title'', ''linkedin_posts'', ''latest_linkedin_post'',
                        ''github_activity'', ''youtube_videos'', ''contact'', ''last_updated''] \<and>
         map_of doc ''linkedin_posts'' = Some (JArr posts) \<and>
         map_of doc ''github_activity'' = Some github_activity \<and>
         map_of doc ''youtube_videos'' = Some (JArr youtube_videos))) \<and>
   (\<not> (posts = [] \<or> (\<exists>c. dict_get (hd posts) ''content'' (JStr []) = Inr (JStr c))) \<longrightarrow>
      (\<exists>e. generate_data_json rt env n fs posts github_activity youtube_videos = (Inl e, fs)))"
proof (intro conjI impI)
  assume "posts = [] \<or> (\<exists>c. dict_get (hd posts) ''content'' (JStr []) = Inr (JStr c))"
  then have "\<exists>latest. latest_post posts = Inr latest"
  proof
    assume "posts = []"
    then show ?thesis by (simp add: latest_post_def)
  next
    assume is_text: "\<exists>c. dict_get (hd posts) ''content'' (JStr []) = Inr (JStr c)"
    show ?thesis
    proof (cases posts)
      case Nil
      then show ?thesis by (simp add: latest_post_def)
    next
      case (Cons p ps)
      with is_text latest_post_text [of p _ ps] show ?thesis by auto
    qed
  qed
  then obtain latest where "latest_post posts = Inr latest" ..
  from document_fields [OF this, of rt env n github_activity youtube_videos]
  obtain doc where doc: "document rt env n posts github_activity youtube_videos = Inr (JObj doc)"
    and fields: "map fst doc = [''name'', ''title'', ''linkedin_posts'', ''latest_linkedin_post'',
                        ''github_activity'', ''youtube_videos'', ''contact'', ''last_updated'']"
      "map_of doc ''linkedin_posts'' = Some (JArr posts)"
      "map_of doc ''github_activity'' = Some github_activity"
      "map_of doc ''youtube_videos'' = Some (JArr youtube_videos)"
    by auto
  from doc have "generate_data_json rt env n fs posts github_activity youtube_videos
               = (Inr (), fs\<lparr>data_file := Some (JObj doc)\<rparr>)"
    by (rule generate_writes_document)
  with fields
  show "\<exists>doc. generate_data_json rt env n fs posts github_activity youtube_videos
               = (Inr (), fs\<lparr>data_file := Some (JObj doc)\<rparr>) \<and>
         map fst doc = [''name'', ''title'', ''linkedin_posts'', ''latest_linkedin_post'',
                        ''github_activity'', ''youtube_videos'', ''contact'', ''last_updated''] \<and>
         map_of doc ''linkedin_posts'' = Some (JArr posts) \<and>
         map_of doc ''github_activity'' = Some github_activity \<and>
         map_of doc ''youtube_videos'' = Some (JArr youtube_videos)"
    by (intro exI [of _ doc]) simp
next
  assume no: "\<not> (posts = [] \<or> (\<exists>c. dict_get (hd posts) ''content'' (JStr []) = Inr (JStr c)))"
  then obtain p ps where posts: "posts = p # ps"
    by (cases posts) auto
  with no have "\<not> (\<exists>c. dict_get p ''content'' (JStr []) = Inr (JStr c))"
    by simp
  then obtain e where "latest_post (p # ps) = Inl e"
    using latest_post_not_text by blast
  with posts generate_fails_unwritten
  show "\<exists>e. generate_data_json rt env n fs posts github_activity youtube_videos = (Inl e, fs)"
    by blast
qed

theorem document_has_every_key_witness:
  "generate_data_json sample_runtime sample_env 0 old_files [] JNull [] =
     (Inr (),
      old_files\<lparr>data_file := Some (JObj
        [(''name'', JStr ''Your Name''),
         (''title'', JStr ''Your Title''),
         (''linkedin_posts'', JArr []),
         (''latest_linkedin_post'', JNull),
         (''github_activity'', JNull),
         (''youtube_videos'', JArr []),
         (''contact'', JObj [(''email'', JStr ''your.email@example.com''),
                             (''github'', JStr ''octocat''),
                             (''linkedin'', JStr ''https://linkedin.com/in/yourprofile'')]),
         (''last_updated'', JStr ''2024-05-01T09:00:00'')])\<rparr>) \<and>
   dict_get (hd [JObj [(''content'', JInt 5)]]) ''content'' (JStr []) = Inr (JInt 5) \<and>
   generate_data_json sample_runtime sample_env 0 old_files [JObj [(''content'', JInt 5)]] JNull []
     = (Inl AttributeError, old_files)"
  using document_has_every_key [of "[]" sample_runtime sample_env 0 old_files JNull "[]"]
    document_has_every_key
      [of "[JObj [(''content'', JInt 5)]]" sample_runtime sample_env 0 old_files JNull "[]"]
  by (simp add: generate_data_json_def document_def latest_post_def getenv_def
      sample_env_def sample_runtime_def dict_get_def str_split_def)

text \<open>
  The whole run with every request failing: the document is written all the same, with an
  empty list of posts, no code activity and an empty list of videos.
\<close>

lemma run_with_every_fetch_failing:
  "main sample_runtime Map.empty (Some sample_env) offline old_files =
     (Inr (),
      old_files\<lparr>data_file := Some (JObj
        [(''name'', JStr ''Your Name''),
         (''title'', JStr ''Your Title''),
         (''linkedin_posts'', JArr []),
         (''latest_linkedin_post'', JNull),
         (''github_activity'', JNull),
         (''youtube_videos'', JArr []),
         (''contact'', JObj [(''email'', JStr ''your.email@example.com''),
                             (''github'', JStr ''octocat''),
                             (''linkedin'', JStr ''https://linkedin.com/in/yourprofile'')]),
         (''last_updated'', JStr ''2024-05-01T09:00:00'')])\<rparr>)"
  by (simp add: main_def load_env_def fetch_linkedin_data_def linkedin_response_def
      missing_def getenv_def sample_env_def offline_def no_elements_def
      parse_linkedin_posts_def dict_get_def fetch_github_activity_def
      fetch_youtube_latest_videos_def fetch_youtube_uploads_playlist_def
      generate_data_json_def document_def latest_post_def sample_runtime_def)

subsection \<open>Elements that are objects\<close>

lemma contains_object [simp]: "contains k (JObj kv) = Inr (k \<in> fst ` set kv)"
  by (simp add: contains_def)

lemma dict_get_JObj [simp]:
  "dict_get (JObj kv) k d = Inr (case map_of kv k of Some v \<Rightarrow> v | None \<Rightarrow> d)"
  by (simp add: dict_get_def)

lemma map_of_Some_key: "map_of kv k = Some v \<Longrightarrow> k \<in> fst ` set kv"
  by (auto dest!: map_of_SomeD intro: rev_image_eqI)

lemma map_of_None_key: "map_of kv k = None \<Longrightarrow> k \<notin> fst ` set kv"
  by (simp add: map_of_eq_None_iff)

lemma fallback_content_object:
  "fallback_content (JObj kv) =
     (case map_of kv ''commentary'' of
        Some commentary \<Rightarrow> dict_get commentary ''text'' (JStr [])
      | None \<Rightarrow> Inr (case map_of kv ''text'' of Some t \<Rightarrow> t | None \<Rightarrow> JStr []))"
proof (cases "map_of kv ''commentary''")
  case None
  note no_commentary = None map_of_None_key [OF None]
  show ?thesis
  proof (cases "map_of kv ''text''")
    case None
    with no_commentary map_of_None_key [OF None] show ?thesis
      by (simp add: fallback_content_def)
  next
    case (Some t)
    with no_commentary map_of_Some_key [OF Some] show ?thesis
      by (simp add: fallback_content_def)
  qed
next
  case (Some c)
  with map_of_Some_key [OF Some] show ?thesis
    by (simp add: fallback_content_def)
qed

text \<open>What a rule has computed when it returns: the values read, and the record made of them.\<close>

lemma parse_fallback_Some:
  assumes "parse_fallback rt n element = Inr (r, n')"
  shows "\<exists>urn content t date.
           dict_get element ''entityUrn'' (JStr []) = Inr urn \<and>
           fallback_content element = Inr content \<and>
           created_time element = Inr t \<and>
           date_of rt n t = Inr (date, n') \<and>
           r = (if truthy content \<or> truthy urn
                then Some (JObj [(''date'', JStr date), (''content'', content),
                       (''url'', JStr (if truthy urn
                          then ''https://www.linkedin.com/feed/update/'' @ fmt rt urn @ ''/''
                          else [])),
                       (''entity_urn'', urn)])
                else None)"
  using assms
  by (auto simp: parse_fallback_def andthen_def Let_def split: sum.splits prod.splits if_splits)

lemma parse_ugc_Some:
  assumes "parse_ugc rt n element = Inr (r, n')"
  shows "\<exists>ident content t date.
           dict_get element ''id'' (JStr []) = Inr ident \<and>
           ugc_content element = Inr content \<and>
           created_time element = Inr t \<and>
           date_of rt n t = Inr (date, n') \<and>
           r = (if truthy content
                then Some (JObj [(''date'', JStr date), (''content'', content),
                       (''url'', JStr (if truthy ident
                          then ''https://www.linkedin.com/feed/update/urn:li:ugcPost:'' @ fmt rt ident @ ''/''
                          else [])),
                       (''entity_urn'', JStr (''urn:li:ugcPost:'' @ fmt rt ident))])
                else None)"
  using assms
  by (auto simp: parse_ugc_def andthen_def Let_def split: sum.splits prod.splits if_splits)

subsection \<open>Content of a fallback element\<close>

text \<open>
  C5 as stated fails: an element whose commentary has no text, and which has a text of its
  own, gets the empty content, where the rule of the specification gives the text of the
  element. The element has an identifier, so the record with the empty content is emitted.
\<close>

theorem fallback_content_counterexample:
  "spec_fallback_content commentary_without_text = JStr ''hello'' \<and>
   fallback_content commentary_without_text = Inr (JStr []) \<and>
   parse_element sample_runtime 0 commentary_without_text =
     Inr (Some (JObj [(''date'', JStr ''2023-11-14T22:13:20''),
                      (''content'', JStr []),
                      (''url'', JStr ''https://www.linkedin.com/feed/update/urn:li:share:9/''),
                      (''entity_urn'', JStr ''urn:li:share:9'')]), 0)"
  by (simp add: commentary_without_text_def spec_fallback_content_def fallback_content_def
      parse_element_def parse_fallback_def created_time_def date_of_def fmt_def
      sample_runtime_def)

text \<open>
  C5, amended. For an element that is an object: when it has the key \<open>commentary\<close>, the
  content is the text of that commentary, the empty string when the commentary has no
  text (and the lookup raises when the commentary is not an object); when it has no such
  key, the content is the text of the element if it has one, and the empty string
  otherwise. Whenever the fallback rule emits a record, this is the content of the record.
\<close>

theorem fallback_content_rule:
  "fallback_content (JObj kv) =
     (case map_of kv ''commentary'' of
        Some commentary \<Rightarrow> dict_get commentary ''text'' (JStr [])
      | None \<Rightarrow> Inr (case map_of kv ''text'' of Some t \<Rightarrow> t | None \<Rightarrow> JStr [])) \<and>
   (contains ''specificContent'' element = Inr False \<and>
    parse_element rt n element = Inr (Some post, n') \<longrightarrow>
      (\<exists>content. fallback_content element = Inr content \<and>
                 dict_get post ''content'' JNull = Inr content))"
proof (intro conjI impI)
  show "fallback_content (JObj kv) =
     (case map_of kv ''commentary'' of
        Some commentary \<Rightarrow> dict_get commentary ''text'' (JStr [])
      | None \<Rightarrow> Inr (case map_of kv ''text'' of Some t \<Rightarrow> t | None \<Rightarrow> JStr []))"
    by (rule fallback_content_object)
next
  assume "contains ''specificContent'' element = Inr False \<and>
    parse_element rt n element = Inr (Some post, n')"
  then have "parse_fallback rt n element = Inr (Some post, n')"
    by (auto simp: parse_element_def)
  from parse_fallback_Some [OF this]
  show "\<exists>content. fallback_content element = Inr content \<and>
                 dict_get post ''content'' JNull = Inr content"
    by (auto split: if_splits)
qed

theorem fallback_content_rule_witness:
  "contains ''specificContent''
     (JObj [(''commentary'', JObj [(''text'', JStr ''from commentary'')]),
            (''text'', JStr ''hello'')]) = Inr False \<and>
   parse_element sample_runtime 0
     (JObj [(''commentary'', JObj [(''text'', JStr ''from commentary'')]),
            (''text'', JStr ''hello'')]) =
     Inr (Some (JObj [(''date'', JStr ''2024-05-01T09:00:00''),
                      (''content'', JStr ''from commentary''),
                      (''url'', JStr []),
                      (''entity_urn'', JStr [])]), 1) \<and>
   fallback_content
     (JObj [(''commentary'', JObj [(''text'', JStr ''from commentary'')]),
            (''text'', JStr ''hello'')]) = Inr (JStr ''from commentary'')"
  using fallback_content_rule
    [of "[(''commentary'', JObj [(''text'', JStr ''from commentary'')]),
          (''text'', JStr ''hello'')]"
        "JObj [(''commentary'', JObj [(''text'', JStr ''from commentary'')]),
               (''text'', JStr ''hello'')]"
        sample_runtime 0
        "JObj [(''date'', JStr ''2024-05-01T09:00:00''),
               (''content'', JStr ''from commentary''),
               (''url'', JStr []),
               (''entity_urn'', JStr [])]" 1]
  by (simp add: fallback_content_def parse_element_def parse_fallback_def created_time_def
      date_of_def sample_runtime_def)

text \<open>Where the rule of the specification and the code agree.\<close>

lemma fallback_content_meets_spec:
  "map_of kv ''commentary'' = None \<or>
   (\<exists>ckv t. map_of kv ''commentary'' = Some (JObj ckv) \<and> map_of ckv ''text'' = Some t) \<Longrightarrow>
   fallback_content (JObj kv) = Inr (spec_fallback_content (JObj kv))"
  by (auto simp: fallback_content_object spec_fallback_content_def split: option.splits)

subsection \<open>Which rule parses an element\<close>

text \<open>
  C6. An element that contains the key \<open>specificContent\<close> is parsed by the ugcPosts rule,
  and an element that does not contain it by the fallback rule. For an object with
  \<open>specificContent\<close> the result is the same whatever is stored under \<open>commentary\<close>.
\<close>

theorem primary_shape_precedence:
  "(contains ''specificContent'' element = Inr True \<longrightarrow>
      parse_element rt n element = parse_ugc rt n element) \<and>
   (contains ''specificContent'' element = Inr False \<longrightarrow>
      parse_element rt n element = parse_fallback rt n element) \<and>
   (''specificContent'' \<in> fst ` set kv \<longrightarrow>
      parse_element rt n (JObj ((''commentary'', v) # kv)) = parse_element rt n (JObj kv))"
  by (auto simp: parse_element_def parse_ugc_def ugc_content_def created_time_def)

theorem primary_shape_precedence_witness:
  "contains ''specificContent'' both_shapes_element = Inr True \<and>
   parse_element sample_runtime 0 both_shapes_element =
     Inr (Some (JObj [(''date'', JStr ''2023-11-14T22:13:20''),
                      (''content'', JStr ''primary text''),
                      (''url'', JStr ''https://www.linkedin.com/feed/update/urn:li:ugcPost:7001/''),
                      (''entity_urn'', JStr ''urn:li:ugcPost:7001'')]), 0) \<and>
   parse_ugc sample_runtime 0 both_shapes_element =
     parse_element sample_runtime 0 both_shapes_element \<and>
   ''specificContent'' \<in> fst ` set both_shapes_items \<and>
   parse_element sample_runtime 0 (JObj ((''commentary'', JNull) # both_shapes_items)) =
     parse_element sample_runtime 0 both_shapes_element \<and>
   contains ''specificContent'' fallback_identifier_only = Inr False \<and>
   parse_fallback sample_runtime 0 fallback_identifier_only =
     parse_element sample_runtime 0 fallback_identifier_only"
  using primary_shape_precedence [of both_shapes_element sample_runtime 0 both_shapes_items JNull]
    primary_shape_precedence [of fallback_identifier_only sample_runtime 0 "[]" JNull]
  by (simp add: both_shapes_element_def both_shapes_items_def fallback_identifier_only_def
      ugc_text_def parse_element_def parse_ugc_def ugc_content_def created_time_def
      date_of_def fmt_def sample_runtime_def)

subsection \<open>When a record is emitted\<close>

text \<open>
  C7. Whenever the loop body returns for an element, it has emitted a record under the
  ugcPosts rule exactly when the extracted content is not empty, and under the fallback
  rule exactly when the extracted content is not empty or the identifier is present.
  Not empty and present are the truth tests of lines 145 and 169: an identifier that is
  absent counts as the empty string. The fallback rule is strictly looser: of two elements
  with an identifier and no content, the fallback one is emitted and the ugcPosts one is
  not, as the two sample elements show below.
\<close>

theorem emission_rules:
  "(contains ''specificContent'' element = Inr True \<and> parse_element rt n element = Inr (r, n') \<longrightarrow>
      (\<exists>content. ugc_content element = Inr content \<and> (r \<noteq> None) = truthy content)) \<and>
   (contains ''specificContent'' element = Inr False \<and> parse_element rt n element = Inr (r, n') \<longrightarrow>
      (\<exists>content urn. fallback_content element = Inr content \<and>
          dict_get element ''entityUrn'' (JStr []) = Inr urn \<and>
          (r \<noteq> None) = (truthy content \<or> truthy urn)))"
proof (intro conjI impI)
  assume "contains ''specificContent'' element = Inr True \<and> parse_element rt n element = Inr (r, n')"
  then have "parse_ugc rt n element = Inr (r, n')"
    by (auto simp: parse_element_def)
  from parse_ugc_Some [OF this]
  show "\<exists>content. ugc_content element = Inr content \<and> (r \<noteq> None) = truthy content"
    by auto
next
  assume "contains ''specificContent'' element = Inr False \<and> parse_element rt n element = Inr (r, n')"
  then have "parse_fallback rt n element = Inr (r, n')"
    by (auto simp: parse_element_def)
  from parse_fallback_Some [OF this]
  show "\<exists>content urn. fallback_content element = Inr content \<and>
          dict_get element ''entityUrn'' (JStr []) = Inr urn \<and>
          (r \<noteq> None) = (truthy content \<or> truthy urn)"
    by auto
qed

theorem emission_rules_witness:
  "contains ''specificContent'' ugc_identifier_only = Inr True \<and>
   parse_element sample_runtime 0 ugc_identifier_only = Inr (None, 0) \<and>
   ugc_content ugc_identifier_only = Inr (JStr []) \<and>
   contains ''specificContent'' fallback_identifier_only = Inr False \<and>
   parse_element sample_runtime 0 fallback_identifier_only =
     Inr (Some (JObj [(''date'', JStr ''2023-11-14T22:13:20''),
                      (''content'', JStr []),
                      (''url'', JStr ''https://www.linkedin.com/feed/update/urn:li:share:9/''),
                      (''entity_urn'', JStr ''urn:li:share:9'')]), 0) \<and>
   fallback_content fallback_identifier_only = Inr (JStr [])"
  using emission_rules [of ugc_identifier_only sample_runtime 0 None 0]
    emission_rules [of fallback_identifier_only sample_runtime 0
      "Some (JObj [(''date'', JStr ''2023-11-14T22:13:20''),
                   (''content'', JStr []),
                   (''url'', JStr ''https://www.linkedin.com/feed/update/urn:li:share:9/''),
                   (''entity_urn'', JStr ''urn:li:share:9'')])" 0]
  by (simp add: ugc_identifier_only_def fallback_identifier_only_def parse_element_def
      parse_ugc_def parse_fallback_def ugc_content_def fallback_content_def created_time_def
      date_of_def fmt_def sample_runtime_def)

subsection \<open>Normalizing a payload twice\<close>

text \<open>
  C3 as stated fails. The same payload, with an element that has no creation time, is
  normalized at the first and at the second reading of the clock of one run: the two
  lists differ in the date of the record.
\<close>

theorem normalization_counterexample:
  "returned (parse_linkedin_posts sample_runtime 0 undated_payload) =
     Inr [JObj [(''date'', JStr ''2024-05-01T09:00:00''),
                (''content'', JStr ''Hello world this is a long post''),
                (''url'', JStr ''https://www.linkedin.com/feed/update/urn:li:ugcPost:7001/''),
                (''entity_urn'', JStr ''urn:li:ugcPost:7001'')]] \<and>
   returned (parse_linkedin_posts sample_runtime 1 undated_payload) =
     Inr [JObj [(''date'', JStr ''2024-05-01T09:00:07''),
                (''content'', JStr ''Hello world this is a long post''),
                (''url'', JStr ''https://www.linkedin.com/feed/update/urn:li:ugcPost:7001/''),
                (''entity_urn'', JStr ''urn:li:ugcPost:7001'')]] \<and>
   returned (parse_linkedin_posts sample_runtime 0 undated_payload) \<noteq>
     returned (parse_linkedin_posts sample_runtime 1 undated_payload)"
  by (simp add: returned_def parse_linkedin_posts_def undated_payload_def undated_element_def
      ugc_text_def iterate_def parse_element_def parse_ugc_def ugc_content_def
      created_time_def date_of_def fmt_def sample_runtime_def)

text \<open>
  An element with a creation time never reads the clock: what a rule returns for it is
  fixed by the element, the conversion of times and the printing of values.
\<close>

lemma date_of_dated:
  assumes "truthy t" "iso_of_ms rt = iso_of_ms rt'"
  shows "\<exists>x. date_of rt n t = (case x of Inl e \<Rightarrow> Inl e | Inr d \<Rightarrow> Inr (d, n)) \<and>
             date_of rt' n' t = (case x of Inl e \<Rightarrow> Inl e | Inr d \<Rightarrow> Inr (d, n'))"
proof (cases t)
  case (JInt i)
  with assms show ?thesis
    by (intro exI [of _ "iso_of_ms rt (of_int i)"])
       (simp add: date_of_def andthen_def split: sum.splits)
next
  case (JFloat q)
  with assms show ?thesis
    by (intro exI [of _ "iso_of_ms rt q"])
       (simp add: date_of_def andthen_def split: sum.splits)
next
  case (JBool b)
  with assms show ?thesis
    by (intro exI [of _ "iso_of_ms rt 1"])
       (simp add: date_of_def andthen_def split: sum.splits)
next
  case JNull
  with assms show ?thesis by simp
next
  case (JStr s)
  with assms show ?thesis
    by (intro exI [of _ "Inl TypeError"]) (simp add: date_of_def)
next
  case (JArr xs)
  with assms show ?thesis
    by (intro exI [of _ "Inl TypeError"]) (simp add: date_of_def)
next
  case (JObj kv)
  with assms show ?thesis
    by (intro exI [of _ "Inl TypeError"]) (simp add: date_of_def)
qed

lemma fmt_cong: "str_of rt = str_of rt' \<Longrightarrow> fmt rt v = fmt rt' v"
  by (cases v) (simp_all add: fmt_def)

lemma dated_created_time: "dated e \<Longrightarrow> \<exists>t. created_time e = Inr t \<and> truthy t"
  by (cases "created_time e") (simp_all add: dated_def)

lemma parse_ugc_dated:
  assumes "dated e" "iso_of_ms rt = iso_of_ms rt'" "str_of rt = str_of rt'"
  shows "\<exists>x. parse_ugc rt n e = (case x of Inl err \<Rightarrow> Inl err | Inr r \<Rightarrow> Inr (r, n)) \<and>
             parse_ugc rt' n' e = (case x of Inl err \<Rightarrow> Inl err | Inr r \<Rightarrow> Inr (r, n'))"
proof -
  from assms(1) obtain t where t: "created_time e = Inr t" "truthy t"
    using dated_created_time by blast
  from date_of_dated [OF t(2) assms(2), of n n'] obtain x where
    x: "date_of rt n t = (case x of Inl e \<Rightarrow> Inl e | Inr d \<Rightarrow> Inr (d, n))"
       "date_of rt' n' t = (case x of Inl e \<Rightarrow> Inl e | Inr d \<Rightarrow> Inr (d, n'))"
    by blast
  show ?thesis
  proof (cases "dict_get e ''id'' (JStr [])")
    case (Inl err)
    then show ?thesis
      by (intro exI [of _ "Inl err"]) (simp add: parse_ugc_def)
  next
    case ident: (Inr ident)
    show ?thesis
    proof (cases "ugc_content e")
      case (Inl err)
      with ident show ?thesis
        by (intro exI [of _ "Inl err"]) (simp add: parse_ugc_def)
    next
      case content: (Inr content)
      show ?thesis
      proof (cases x)
        case (Inl err)
        with ident content t x show ?thesis
          by (intro exI [of _ "Inl err"]) (simp add: parse_ugc_def)
      next
        case (Inr d)
        with ident content t x fmt_cong [OF assms(3)] show ?thesis
          by (intro exI [of _ "Inr (fst (projr (parse_ugc rt n e)))"])
             (simp add: parse_ugc_def Let_def)
      qed
    qed
  qed
qed

lemma parse_fallback_dated:
  assumes "dated e" "iso_of_ms rt = iso_of_ms rt'" "str_of rt = str_of rt'"
  shows "\<exists>x. parse_fallback rt n e = (case x of Inl err \<Rightarrow> Inl err | Inr r \<Rightarrow> Inr (r, n)) \<and>
             parse_fallback rt' n' e = (case x of Inl err \<Rightarrow> Inl err | Inr r \<Rightarrow> Inr (r, n'))"
proof -
  from assms(1) obtain t where t: "created_time e = Inr t" "truthy t"
    using dated_created_time by blast
  from date_of_dated [OF t(2) assms(2), of n n'] obtain x where
    x: "date_of rt n t = (case x of Inl e \<Rightarrow> Inl e | Inr d \<Rightarrow> Inr (d, n))"
       "date_of rt' n' t = (case x of Inl e \<Rightarrow> Inl e | Inr d \<Rightarrow> Inr (d, n'))"
    by blast
  show ?thesis
  proof (cases "dict_get e ''entityUrn'' (JStr [])")
    case (Inl err)
    then show ?thesis
      by (intro exI [of _ "Inl err"]) (simp add: parse_fallback_def)
  next
    case urn: (Inr urn)
    show ?thesis
    proof (cases "fallback_content e")
      case (Inl err)
      with urn show ?thesis
        by (intro exI [of _ "Inl err"]) (simp add: parse_fallback_def)
    next
      case content: (Inr content)
      show ?thesis
      proof (cases x)
        case (Inl err)
        with urn content t x show ?thesis
          by (intro exI [of _ "Inl err"]) (simp add: parse_fallback_def)
      next
        case (Inr d)
        with urn content t x fmt_cong [OF assms(3)] show ?thesis
          by (intro exI [of _ "Inr (fst (projr (parse_fallback rt n e)))"])
             (simp add: parse_fallback_def Let_def)
      qed
    qed
  qed
qed

lemma parse_element_dated:
  assumes "dated e" "iso_of_ms rt = iso_of_ms rt'" "str_of rt = str_of rt'"
  shows "\<exists>x. parse_element rt n e = (case x of Inl err \<Rightarrow> Inl err | Inr r \<Rightarrow> Inr (r, n)) \<and>
             parse_element rt' n' e = (case x of Inl err \<Rightarrow> Inl err | Inr r \<Rightarrow> Inr (r, n'))"
proof (cases "contains ''specificContent'' e")
  case (Inl err)
  then show ?thesis
    by (intro exI [of _ "Inl err"]) (simp add: parse_element_def)
next
  case (Inr ugc)
  with parse_ugc_dated [OF assms, of n n'] parse_fallback_dated [OF assms, of n n']
  show ?thesis
    by (cases ugc) (simp_all add: parse_element_def)
qed

lemma parse_loop_dated:
  assumes "iso_of_ms rt = iso_of_ms rt'" "str_of rt = str_of rt'"
  shows "list_all dated es \<Longrightarrow>
         returned (parse_loop rt posts n es) = returned (parse_loop rt' posts n' es)"
proof (induction es arbitrary: posts n n')
  case Nil
  then show ?case by (simp add: returned_def)
next
  case (Cons e es)
  then have "dated e" and rest: "list_all dated es" by simp_all
  from parse_element_dated [OF this(1) assms, of n n'] obtain x where
    x: "parse_element rt n e = (case x of Inl err \<Rightarrow> Inl err | Inr r \<Rightarrow> Inr (r, n))"
       "parse_element rt' n' e = (case x of Inl err \<Rightarrow> Inl err | Inr r \<Rightarrow> Inr (r, n'))"
    by blast
  show ?case
  proof (cases x)
    case (Inl err)
    with x show ?thesis by (simp add: returned_def)
  next
    case (Inr r)
    with x Cons.IH [OF rest] show ?thesis by simp
  qed
qed

lemma returned_take:
  "returned (andthen m (\<lambda>(posts, k). Inr (take 5 posts, k))) =
     (case returned m of Inl e \<Rightarrow> Inl e | Inr posts \<Rightarrow> Inr (take 5 posts))"
  by (cases m) (auto simp: returned_def)

text \<open>
  C3, amended. For a fixed payload whose elements all carry a creation time that is not
  zero, two applications of the normalizer return the same list (or raise the same
  exception), at whatever times and after however many clock readings they run, as long
  as times are converted and values printed in the same way. An element without a
  creation time is dated with the time of the run.
\<close>

theorem normalization_of_dated_payload:
  assumes "iso_of_ms rt = iso_of_ms rt'" and "str_of rt = str_of rt'"
    and "dict_get linkedin_data ''elements'' (JArr []) = Inr (JArr es)"
    and "list_all dated es"
  shows "returned (parse_linkedin_posts rt n linkedin_data)
       = returned (parse_linkedin_posts rt' n' linkedin_data)"
proof (cases "es = []")
  case True
  with assms(3) show ?thesis
    by (simp add: parse_linkedin_posts_def returned_def)
next
  case False
  with assms(3) parse_loop_dated [OF assms(1,2,4), of "[]" n n'] show ?thesis
    by (simp add: parse_linkedin_posts_def iterate_def returned_take)
qed

theorem normalization_of_dated_payload_witness:
  "dict_get dated_payload ''elements'' (JArr []) = Inr (JArr [dated_element]) \<and>
   list_all dated [dated_element] \<and>
   returned (parse_linkedin_posts sample_runtime 0 dated_payload) =
     returned (parse_linkedin_posts
       (sample_runtime\<lparr>now_iso := (\<lambda>n. ''2031-01-01T00:00:00'')\<rparr>) 7 dated_payload) \<and>
   returned (parse_linkedin_posts sample_runtime 0 dated_payload) =
     Inr [JObj [(''date'', JStr ''2023-11-14T22:13:20''),
                (''content'', JStr ''Hello world this is a long post''),
                (''url'', JStr ''https://www.linkedin.com/feed/update/urn:li:ugcPost:7001/''),
                (''entity_urn'', JStr ''urn:li:ugcPost:7001'')]]"
  using normalization_of_dated_payload
    [of sample_runtime "sample_runtime\<lparr>now_iso := (\<lambda>n. ''2031-01-01T00:00:00'')\<rparr>"
        dated_payload "[dated_element]" 0 7]
  by (simp add: returned_def parse_linkedin_posts_def dated_payload_def dated_element_def
      dated_def ugc_text_def iterate_def parse_element_def parse_ugc_def ugc_content_def
      created_time_def date_of_def fmt_def sample_runtime_def)

end
